theory Spec2Isabelle
  imports Main
begin

section \<open>Python strings\<close>

text \<open>
  A Python \<open>str\<close> is modelled as a \<^typ>\<open>string\<close>, each \<^typ>\<open>char\<close> standing for a
  code point below 256. \<open>isspace\<close> lists the code points below 256 that \<open>str.strip\<close>
  removes.
\<close>

definition isspace :: "char \<Rightarrow> bool" where
  "isspace c = (of_char c \<in> set [9, 10, 11, 12, 13, 28, 29, 30, 31, 32, 133, 160 :: nat])"

definition lstrip :: "string \<Rightarrow> string" where
  "lstrip s = dropWhile isspace s"

definition rstrip :: "string \<Rightarrow> string" where
  "rstrip s = rev (dropWhile isspace (rev s))"

definition strip :: "string \<Rightarrow> string" where
  "strip s = rstrip (lstrip s)"

definition startswith :: "string \<Rightarrow> string \<Rightarrow> bool" where
  "startswith s p = (take (length p) s = p)"

text \<open>\<open>sub in s\<close> on strings.\<close>

fun contains :: "string \<Rightarrow> string \<Rightarrow> bool" where
  "contains [] sub = (sub = [])"
| "contains (c # cs) sub = (startswith (c # cs) sub \<or> contains cs sub)"

text \<open>\<open>sep.join(xs)\<close>.\<close>

fun join :: "string \<Rightarrow> string list \<Rightarrow> string" where
  "join sep [] = []"
| "join sep [x] = x"
| "join sep (x # y # ys) = x @ sep @ join sep (y # ys)"

text \<open>\<open>s.split()\<close>: the maximal runs of non-whitespace, \<open>cur\<close> being the run in progress.\<close>

fun split_ws :: "string \<Rightarrow> string \<Rightarrow> string list" where
  "split_ws cur [] = (if cur = [] then [] else [cur])"
| "split_ws cur (c # cs) =
     (if isspace c then (if cur = [] then [] else [cur]) @ split_ws [] cs
      else split_ws (cur @ [c]) cs)"

text \<open>\<open>a or b\<close> on strings: the empty string is falsy.\<close>

definition str_or :: "string option \<Rightarrow> string \<Rightarrow> string" where
  "str_or a b = (case a of None \<Rightarrow> b | Some s \<Rightarrow> if s = [] then b else s)"

text \<open>\<open>xs[:n]\<close>: a negative bound counts from the end.\<close>

definition slice_to :: "'a list \<Rightarrow> int \<Rightarrow> 'a list" where
  "slice_to xs n = (if n < 0 then take (nat (int (length xs) + n)) xs else take (nat n) xs)"


section \<open>Parsed markup: lxml\<close>

text \<open>
  Both parsers (\<open>lxml.html.fromstring\<close> and \<open>BeautifulSoup(_, "html.parser")\<close>) are
  libraries outside the repository. The tree of \<open>lxml\<close> is modelled as text nodes and
  elements; an element carries its tag name, its attributes (name and raw value, each name
  once) and its children in document order.
\<close>

datatype node = Text string | Element string "(string \<times> string) list" "node list"

fun get_attr :: "node \<Rightarrow> string \<Rightarrow> string option" where
  "get_attr (Text s) k = None"
| "get_attr (Element t as cs) k = map_of as k"

text \<open>\<open>el.text_content()\<close>: all text below the element, concatenated.\<close>

fun text_content :: "node \<Rightarrow> string" where
  "text_content (Text s) = s"
| "text_content (Element t as cs) = concat (map text_content cs)"

text \<open>
  \<open>tree.xpath("//article//h2/a")\<close>: the \<open>a\<close> elements whose parent is an \<open>h2\<close> that lies
  below an \<open>article\<close>, each once, in document order. \<open>in_article\<close> says that the node has
  an \<open>article\<close> ancestor, \<open>under_h2\<close> that its parent is an \<open>h2\<close> with such an ancestor.
\<close>

fun xpath_from :: "bool \<Rightarrow> bool \<Rightarrow> node \<Rightarrow> node list" where
  "xpath_from in_article under_h2 (Text s) = []"
| "xpath_from in_article under_h2 (Element t as cs) =
     (if t = ''a'' \<and> under_h2 then [Element t as cs] else []) @
     concat (map (xpath_from (in_article \<or> t = ''article'') (t = ''h2'' \<and> in_article)) cs)"

definition xpath_article_h2_a :: "node \<Rightarrow> node list" where
  "xpath_article_h2_a tree = xpath_from False False tree"


section \<open>Parsed markup: BeautifulSoup\<close>

text \<open>
  In the tree of \<open>BeautifulSoup\<close> every string is an object of \<open>NavigableString\<close> or of
  one of its subclasses, chosen by the parser: comments, declarations, doctypes and
  processing instructions have their own class, and a string that lies inside a
  \<open>script\<close>, \<open>style\<close>, \<open>template\<close>, \<open>rt\<close> or \<open>rp\<close> element gets the class of the
  innermost such element. The model keeps the class with the string, as the library does.
\<close>

datatype string_class =
    NavigableString
  | CData
  | Comment
  | Declaration
  | Doctype
  | ProcessingInstruction
  | Script
  | Stylesheet
  | TemplateString
  | RubyTextString
  | RubyParenthesisString

datatype page_element =
    Str string_class string
  | Tag string "(string \<times> string) list" "page_element list"

text \<open>\<open>tag.descendants\<close>: everything strictly below a tag, in document order.\<close>

fun descendants :: "page_element \<Rightarrow> page_element list" where
  "descendants (Str k s) = []"
| "descendants (Tag t as cs) = concat (map (\<lambda>c. c # descendants c) cs)"

fun tag_attr :: "page_element \<Rightarrow> string \<Rightarrow> string option" where
  "tag_attr (Str k s) a = None"
| "tag_attr (Tag t as cs) a = map_of as a"

fun is_tag :: "string \<Rightarrow> page_element \<Rightarrow> bool" where
  "is_tag name (Str k s) = False"
| "is_tag name (Tag t as cs) = (t = name)"

text \<open>
  \<open>builder.string_containers\<close> of the HTML tree builders: the elements whose strings get a
  class of their own.
\<close>

definition string_containers :: "string \<Rightarrow> string_class option" where
  "string_containers name =
     (if name = ''rt'' then Some RubyTextString
      else if name = ''rp'' then Some RubyParenthesisString
      else if name = ''style'' then Some Stylesheet
      else if name = ''script'' then Some Script
      else if name = ''template'' then Some TemplateString
      else None)"

text \<open>
  The class the parser gives to a piece of text found below the open tags \<open>path\<close>,
  innermost first: that of the innermost string container, or \<open>NavigableString\<close> itself
  when there is none. So the text of \<open><p>a<script>b</script></p>\<close> is parsed to
  \<open>Str NavigableString ''a''\<close> and, inside the \<open>script\<close> tag, \<open>Str Script ''b''\<close>.
\<close>

fun container_class :: "string list \<Rightarrow> string_class" where
  "container_class [] = NavigableString"
| "container_class (t # path) =
     (case string_containers t of Some c \<Rightarrow> c | None \<Rightarrow> container_class path)"

text \<open>
  \<open>tag.interesting_string_types\<close>: the classes of string that \<open>get_text\<close> keeps when it is
  called on the tag. For a tag that is not a string container these are \<open>NavigableString\<close>
  and \<open>CData\<close> themselves, not their subclasses.
\<close>

fun interesting_string_types :: "page_element \<Rightarrow> string_class list" where
  "interesting_string_types (Str k s) = []"
| "interesting_string_types (Tag t as cs) =
     (case string_containers t of Some c \<Rightarrow> [c] | None \<Rightarrow> [NavigableString, CData])"

text \<open>The strings among a list of page elements whose class is one of \<open>types\<close>.\<close>

fun strings_of_types :: "string_class list \<Rightarrow> page_element list \<Rightarrow> string list" where
  "strings_of_types types [] = []"
| "strings_of_types types (Str k s # ds) =
     (if k \<in> set types then s # strings_of_types types ds else strings_of_types types ds)"
| "strings_of_types types (Tag t as cs # ds) = strings_of_types types ds"

text \<open>
  \<open>tag._all_strings()\<close>: the strings below the tag that are of an interesting class, in
  document order.
\<close>

definition all_strings :: "page_element \<Rightarrow> string list" where
  "all_strings e = strings_of_types (interesting_string_types e) (descendants e)"

text \<open>
  \<open>tag.get_text(strip=True)\<close>: each of these strings is stripped on its own, the empty
  ones are dropped and the rest concatenated without a separator.
\<close>

definition get_text_strip :: "page_element \<Rightarrow> string" where
  "get_text_strip e = concat (filter (\<lambda>s. s \<noteq> []) (map strip (all_strings e)))"

text \<open>\<open>tag.find_all(names)\<close>: the tags below the tag whose name is listed.\<close>

definition find_all :: "string list \<Rightarrow> page_element \<Rightarrow> page_element list" where
  "find_all names e = filter (\<lambda>d. \<exists>name \<in> set names. is_tag name d) (descendants e)"

text \<open>The three shapes of CSS selector the program uses.\<close>

datatype selector =
    TagClass string string
  | TagAttrEquals string string string
  | TagAttrContains string string string

text \<open>
  The value a selector sees for an attribute: \<open>class\<close> is kept by the parser as the list
  of its whitespace-separated tokens and matched joined by single blanks.
\<close>

definition class_tokens :: "page_element \<Rightarrow> string list" where
  "class_tokens e = (case tag_attr e ''class'' of None \<Rightarrow> [] | Some v \<Rightarrow> split_ws [] v)"

definition attr_value :: "page_element \<Rightarrow> string \<Rightarrow> string option" where
  "attr_value e a =
     (if a = ''class'' then map_option (\<lambda>v. join '' '' (split_ws [] v)) (tag_attr e a)
      else tag_attr e a)"

text \<open>
  The selector engine tests \<open>[a='v']\<close> by matching the value against the pattern \<open>^v$\<close>,
  whose end anchor also accepts one final newline, and \<open>[a*='v']\<close> by searching \<open>v\<close> in
  the value.
\<close>

fun matches :: "selector \<Rightarrow> page_element \<Rightarrow> bool" where
  "matches (TagClass t c) e = (is_tag t e \<and> c \<in> set (class_tokens e))"
| "matches (TagAttrEquals t a v) e =
     (is_tag t e \<and> (attr_value e a = Some v \<or> attr_value e a = Some (v @ [CHR 0x0A])))"
| "matches (TagAttrContains t a v) e =
     (is_tag t e \<and> (case attr_value e a of None \<Rightarrow> False | Some w \<Rightarrow> v \<noteq> [] \<and> contains w v))"

text \<open>\<open>soup.select(sel)\<close> and \<open>soup.select_one(sel)\<close>, the latter the first match or \<open>None\<close>.\<close>

definition select :: "selector \<Rightarrow> page_element \<Rightarrow> page_element list" where
  "select sel soup = filter (matches sel) (descendants soup)"

definition select_one :: "selector \<Rightarrow> page_element \<Rightarrow> page_element option" where
  "select_one sel soup = (case select sel soup of [] \<Rightarrow> None | e # _ \<Rightarrow> Some e)"

text \<open>
  \<open>a or b\<close> and \<open>x if a else y\<close> on the results of \<open>select_one\<close>: \<open>None\<close> is falsy, and a
  tag is truthy whatever it contains (\<open>Tag.__bool__\<close> returns \<open>True\<close>).
\<close>

definition tag_truthy :: "page_element option \<Rightarrow> bool" where
  "tag_truthy r = (case r of None \<Rightarrow> False | Some e \<Rightarrow> True)"

definition tag_or :: "page_element option \<Rightarrow> page_element option \<Rightarrow> page_element option" where
  "tag_or a b = (if tag_truthy a then a else b)"


section \<open>The listing-page extractor\<close>

record article_stub =
  title :: string
  url :: string

text \<open>
  The loop of \<open>parse_main_page\<close> over the matched anchors, \<open>results\<close> being the list built
  so far.
\<close>

fun parse_nodes :: "node list \<Rightarrow> article_stub list \<Rightarrow> article_stub list" where
  "parse_nodes [] results = results"
| "parse_nodes (a # nodes) results =
     (let title_text = strip (str_or (Some (text_content a)) []);
          href = str_or (get_attr a ''href'') [];
          href = (if startswith href ''/'' then ''https://habr.com'' @ href else href)
      in parse_nodes nodes
           (if title_text \<noteq> [] \<and> href \<noteq> []
            then results @ [\<lparr>title = title_text, url = href\<rparr>] else results))"

definition parse_tree :: "node \<Rightarrow> article_stub list" where
  "parse_tree tree = parse_nodes (xpath_article_h2_a tree) []"


section \<open>The article-page extractor\<close>

record article_data =
  text_full :: string
  likes :: string
  comments :: string

text \<open>The inner loop, over the \<open>p\<close> and \<open>li\<close> elements of one container.\<close>

fun collect_texts :: "page_element list \<Rightarrow> string list \<Rightarrow> string list" where
  "collect_texts [] paragraphs = paragraphs"
| "collect_texts (p # ps) paragraphs =
     (let t = get_text_strip p
      in collect_texts ps (if t \<noteq> [] then paragraphs @ [t] else paragraphs))"

text \<open>The outer loop, over the body containers.\<close>

fun collect_bodies :: "page_element list \<Rightarrow> string list \<Rightarrow> string list" where
  "collect_bodies [] paragraphs = paragraphs"
| "collect_bodies (d # body_divs) paragraphs =
     collect_bodies body_divs (collect_texts (find_all [''p'', ''li''] d) paragraphs)"

text \<open>\<open>t.get_text(strip=True) if t else "0"\<close>.\<close>

definition text_or_zero :: "page_element option \<Rightarrow> string" where
  "text_or_zero r = (case r of None \<Rightarrow> ''0''
     | Some e \<Rightarrow> if tag_truthy (Some e) then get_text_strip e else ''0'')"

definition body_selector :: selector where
  "body_selector = TagClass ''div'' ''article-formatted-body''"

definition likes_primary :: selector where
  "likes_primary = TagAttrEquals ''span'' ''data-test-id'' ''votes-meter-counter''"

definition likes_fallback :: selector where
  "likes_fallback = TagAttrContains ''span'' ''class'' ''vote''"

definition comments_primary :: selector where
  "comments_primary = TagAttrEquals ''span'' ''data-test-id'' ''comments-counter''"

definition comments_fallback :: selector where
  "comments_fallback = TagAttrContains ''span'' ''class'' ''comment''"

definition get_article_data :: "page_element \<Rightarrow> article_data" where
  "get_article_data soup =
     (let body_divs = select body_selector soup;
          paragraphs = collect_bodies body_divs [];
          likes_tag = tag_or (select_one likes_primary soup) (select_one likes_fallback soup);
          comments_tag =
            tag_or (select_one comments_primary soup) (select_one comments_fallback soup)
      in \<lparr>text_full = join [CHR 0x0A] paragraphs,
          likes = text_or_zero likes_tag,
          comments = text_or_zero comments_tag\<rparr>)"


section \<open>The store and the driver\<close>

record article_record = article_stub +
  text_full :: string
  likes :: string
  comments :: string

datatype exn = JSONDecodeError | ConnectionError | Timeout | HTTPError nat | ParserError
  | ValueError

text \<open>
  The store file is absent, unparseable, or holds an array of records; serialisation is
  abstracted away.
\<close>

datatype store_file = Absent | Malformed | Stored "article_record list"

datatype message =
    Skipped string
  | Parsing string
  | Failed string exn
  | Added nat
  | NoNew

datatype event = Get string | Sleep nat | Print message | Write "article_record list"

text \<open>
  What a run can observe and change: the store file, the effects so far in order, and the
  number of requests sent so far.
\<close>

record world =
  store :: store_file
  trace :: "event list"
  requests :: nat

text \<open>
  What the libraries and the network do. \<open>session_get n u\<close> is the outcome of the
  \<open>n\<close>-th request of the run when it asks for \<open>u\<close> through the session of
  \<open>make_session\<close>, after its retries and \<open>raise_for_status\<close>: the body, or the exception
  raised. \<open>fromstring\<close> and \<open>soup_of\<close> are the two parsers, \<open>int_of\<close> is \<open>int\<close> on a string.
\<close>

record env =
  session_get :: "nat \<Rightarrow> string \<Rightarrow> exn + string"
  fromstring :: "string \<Rightarrow> exn + node"
  soup_of :: "string \<Rightarrow> exn + page_element"
  int_of :: "string \<Rightarrow> exn + int"

definition HABR_URL :: string where
  "HABR_URL = ''https://habr.com/ru/all/''"

definition emit :: "event \<Rightarrow> world \<Rightarrow> world" where
  "emit e w = w\<lparr>trace := trace w @ [e]\<rparr>"

definition fetch_html :: "env \<Rightarrow> string \<Rightarrow> world \<Rightarrow> world \<times> (exn + string)" where
  "fetch_html E u w =
     (emit (Get u) (w\<lparr>requests := Suc (requests w)\<rparr>), session_get E (requests w) u)"

definition parse_main_page :: "env \<Rightarrow> string \<Rightarrow> exn + article_stub list" where
  "parse_main_page E page_html =
     (case fromstring E page_html of Inl e \<Rightarrow> Inl e | Inr tree \<Rightarrow> Inr (parse_tree tree))"

definition parse_article_page :: "env \<Rightarrow> string \<Rightarrow> exn + article_data" where
  "parse_article_page E article_html =
     (case soup_of E article_html of Inl e \<Rightarrow> Inl e | Inr soup \<Rightarrow> Inr (get_article_data soup))"

definition load_existing_data :: "store_file \<Rightarrow> exn + article_record list" where
  "load_existing_data f =
     (case f of Absent \<Rightarrow> Inr [] | Malformed \<Rightarrow> Inl JSONDecodeError | Stored xs \<Rightarrow> Inr xs)"

definition save_data :: "article_record list \<Rightarrow> world \<Rightarrow> world" where
  "save_data data w = emit (Write data) (w\<lparr>store := Stored data\<rparr>)"

text \<open>The body of the \<open>try\<close>: announce, fetch, extract, assemble the record.\<close>

definition try_article :: "env \<Rightarrow> article_stub \<Rightarrow> world \<Rightarrow> world \<times> (exn + article_record)" where
  "try_article E art w =
     (case fetch_html E (url art) (emit (Print (Parsing (title art))) w) of
        (w1, Inl e) \<Rightarrow> (w1, Inl e)
      | (w1, Inr article_html) \<Rightarrow>
          (case parse_article_page E article_html of
             Inl e \<Rightarrow> (w1, Inl e)
           | Inr extra_data \<Rightarrow>
               (w1, Inr \<lparr>title = title art, url = url art,
                         text_full = article_data.text_full extra_data,
                         likes = article_data.likes extra_data,
                         comments = article_data.comments extra_data\<rparr>)))"

text \<open>The \<open>for\<close> loop of \<open>main\<close>, carrying the world and the \<open>new_articles\<close> buffer.\<close>

fun main_loop ::
  "env \<Rightarrow> string set \<Rightarrow> article_stub list \<Rightarrow> world \<times> article_record list
     \<Rightarrow> world \<times> article_record list" where
  "main_loop E existing_urls [] (w, new_articles) = (w, new_articles)"
| "main_loop E existing_urls (art # articles) (w, new_articles) =
     (if url art \<in> existing_urls
      then main_loop E existing_urls articles (emit (Print (Skipped (title art))) w, new_articles)
      else
        (case try_article E art w of
           (w1, Inr article_data) \<Rightarrow>
             main_loop E existing_urls articles (emit (Sleep 1) w1, new_articles @ [article_data])
         | (w1, Inl e) \<Rightarrow>
             main_loop E existing_urls articles
               (emit (Sleep 1) (emit (Print (Failed (url art) e)) w1), new_articles)))"

definition main :: "env \<Rightarrow> int \<Rightarrow> world \<Rightarrow> world \<times> (exn + unit)" where
  "main E limit w =
     (case load_existing_data (store w) of
        Inl e \<Rightarrow> (w, Inl e)
      | Inr existing_data \<Rightarrow>
          (case fetch_html E HABR_URL w of
             (w1, Inl e) \<Rightarrow> (w1, Inl e)
           | (w1, Inr main_html) \<Rightarrow>
               (case parse_main_page E main_html of
                  Inl e \<Rightarrow> (w1, Inl e)
                | Inr stubs \<Rightarrow>
                    (case main_loop E (set (map url existing_data)) (slice_to stubs limit) (w1, []) of
                       (w2, new_articles) \<Rightarrow>
                         if new_articles \<noteq> []
                         then (emit (Print (Added (length new_articles)))
                                 (save_data (existing_data @ new_articles) w2), Inr ())
                         else (emit (Print NoNew) w2, Inr ())))))"

text \<open>The script: the limit is the first argument if there is one, else 5.\<close>

definition script :: "env \<Rightarrow> string list \<Rightarrow> world \<Rightarrow> world \<times> (exn + unit)" where
  "script E argv w =
     (case (if length argv > 1 then int_of E (argv ! 1) else Inr 5) of
        Inl e \<Rightarrow> (w, Inl e)
      | Inr limit \<Rightarrow> main E limit w)"


section \<open>Vocabulary of the properties\<close>

subsection \<open>One anchor of the listing\<close>

text \<open>
  The three expressions the loop of \<open>parse_main_page\<close> computes for an anchor before it
  rewrites the link: the trimmed title, the \<open>href\<close> (empty when the attribute is missing),
  and the test that lets the stub through.
\<close>

definition anchor_title :: "node \<Rightarrow> string" where
  "anchor_title a = strip (str_or (Some (text_content a)) [])"

definition anchor_href :: "node \<Rightarrow> string" where
  "anchor_href a = str_or (get_attr a ''href'') []"

definition anchor_emitted :: "node \<Rightarrow> bool" where
  "anchor_emitted a = (anchor_title a \<noteq> [] \<and> anchor_href a \<noteq> [])"

subsection \<open>One candidate of the driver\<close>

text \<open>
  What the \<open>try\<close> block yields for a candidate whose page is asked for by the \<open>n\<close>-th
  request of the run: the assembled record, or the exception of the fetch or of the parser.
\<close>

definition article_result :: "env \<Rightarrow> nat \<Rightarrow> article_stub \<Rightarrow> exn + article_record" where
  "article_result E n art =
     (case session_get E n (url art) of
        Inl e \<Rightarrow> Inl e
      | Inr article_html \<Rightarrow>
          (case parse_article_page E article_html of
             Inl e \<Rightarrow> Inl e
           | Inr d \<Rightarrow> Inr \<lparr>title = title art, url = url art,
                         text_full = article_data.text_full d,
                         likes = article_data.likes d,
                         comments = article_data.comments d\<rparr>))"

text \<open>
  The records built for a list of candidates that are all fetched, the first by request
  \<open>n\<close>, in candidate order; a candidate whose fetch or parse fails contributes nothing.
\<close>

fun new_records :: "env \<Rightarrow> nat \<Rightarrow> article_stub list \<Rightarrow> article_record list" where
  "new_records E n [] = []"
| "new_records E n (art # arts) =
     (case article_result E n art of Inl e \<Rightarrow> [] | Inr r \<Rightarrow> [r]) @ new_records E (Suc n) arts"

text \<open>
  The events of the loop over a list of candidates when \<open>n\<close> requests have been sent
  before it: a candidate whose URL is known leaves its skip notice and nothing else; any
  other candidate leaves its announcement, its request, the failure notice if the fetch or
  the parse failed, and then the delay of one second.
\<close>

fun loop_events :: "env \<Rightarrow> string set \<Rightarrow> nat \<Rightarrow> article_stub list \<Rightarrow> event list" where
  "loop_events E known n [] = []"
| "loop_events E known n (art # arts) =
     (if url art \<in> known then Print (Skipped (title art)) # loop_events E known n arts
      else [Print (Parsing (title art)), Get (url art)] @
           (case article_result E n art of
              Inl e \<Rightarrow> [Print (Failed (url art) e)]
            | Inr r \<Rightarrow> []) @
           [Sleep 1] @ loop_events E known (Suc n) arts)"

subsection \<open>The text of an element as the specification words it\<close>

text \<open>
  The specification speaks of the trimmed visible text of an element: here the strings
  that \<open>get_text\<close> keeps, concatenated and then trimmed as one string. \<open>spec_article_text\<close>
  is the article text built from it in the order and with the omissions the specification
  gives. Both are compared below with what the extractor computes.
\<close>

definition spec_trimmed_text :: "page_element \<Rightarrow> string" where
  "spec_trimmed_text e = strip (concat (all_strings e))"

definition spec_article_text :: "page_element \<Rightarrow> string" where
  "spec_article_text soup =
     join [CHR 0x0A]
       (filter (\<lambda>t. t \<noteq> [])
          (concat (map (\<lambda>d. map spec_trimmed_text (find_all [''p'', ''li''] d))
                     (select body_selector soup))))"

subsection \<open>Views of a trace\<close>

text \<open>The URLs requested, in order.\<close>

fun gets :: "event list \<Rightarrow> string list" where
  "gets [] = []"
| "gets (Get u # es) = u # gets es"
| "gets (e # es) = gets es"

text \<open>The contents written to the store file, in order.\<close>

fun writes :: "event list \<Rightarrow> article_record list list" where
  "writes [] = []"
| "writes (Write d # es) = d # writes es"
| "writes (e # es) = writes es"

text \<open>The titles of the candidates the loop has taken up, in order.\<close>

fun considered :: "event list \<Rightarrow> string list" where
  "considered [] = []"
| "considered (Print (Skipped t) # es) = t # considered es"
| "considered (Print (Parsing t) # es) = t # considered es"
| "considered (e # es) = considered es"


section \<open>Example inputs\<close>

text \<open>A listing of three articles; the first and second links are site-relative.\<close>

definition example_listing :: node where
  "example_listing =
     Element ''html'' [] [Element ''body'' [] [
       Element ''article'' [] [Element ''h2'' [] [
         Element ''a'' [(''href'', ''/a'')] [Text '' Alpha '']]],
       Element ''article'' [] [Element ''div'' [] [Element ''h2'' [] [
         Element ''a'' [(''href'', ''/c'')] [Text ''Gamma '', Element ''b'' [] [Text ''3'']]]]],
       Element ''article'' [] [Element ''h2'' [] [
         Element ''a'' [(''href'', ''https://habr.com/d'')] [Text ''Delta'']]]]]"

text \<open>A listing whose only anchor has a link of one blank.\<close>

definition blank_href_listing :: node where
  "blank_href_listing =
     Element ''article'' [] [Element ''h2'' [] [
       Element ''a'' [(''href'', '' '')] [Text ''Title'']]]"

text \<open>
  Article pages. \<open>soup_votes\<close> has the primary vote counter after a span that only the
  fallback matches, and a comment counter only the fallback matches; its body holds a
  script, a comment and a blank paragraph. \<open>soup_fallback\<close> has a fallback vote span and
  no comment element; \<open>soup_bare\<close> has the primary comment counter and no vote element.
  In \<open>soup_blank_primary\<close> and \<open>soup_blank_fallback\<close> the matched counters hold a style
  sheet, blanks or nothing. In \<open>soup_split\<close> a paragraph and the vote counter each hold
  two strings.
\<close>

definition soup_votes :: page_element where
  "soup_votes =
     Tag ''[document]'' [] [
       Tag ''div'' [(''class'', ''tm-body article-formatted-body'')] [
         Tag ''p'' [] [Str NavigableString '' Hello '',
                      Tag ''b'' [] [Str NavigableString ''world''],
                      Tag ''script'' [] [Str Script ''track()'']],
         Tag ''p'' [] [Str NavigableString ''  '', Str Comment ''note''],
         Tag ''ul'' [] [Tag ''li'' [] [Str NavigableString ''item'']]],
       Tag ''span'' [(''class'', ''tm-votes-lol'')] [Str NavigableString ''99''],
       Tag ''span'' [(''data-test-id'', ''votes-meter-counter'')] [Str NavigableString '' +12 ''],
       Tag ''span'' [(''class'', ''tm-comments-count'')]
         [Str NavigableString '' 7'', Tag ''template'' [] [Str TemplateString ''tpl'']]]"

definition soup_fallback :: page_element where
  "soup_fallback =
     Tag ''[document]'' [] [
       Tag ''div'' [(''class'', ''article-formatted-body'')]
         [Tag ''p'' [] [Str NavigableString ''Body'']],
       Tag ''span'' [(''class'', ''votes'')] [Str NavigableString ''3'']]"

definition soup_bare :: page_element where
  "soup_bare =
     Tag ''[document]'' [] [
       Tag ''p'' [] [Str NavigableString ''outside''],
       Tag ''span'' [(''data-test-id'', ''comments-counter'')] [Str NavigableString ''15'']]"

definition soup_blank_primary :: page_element where
  "soup_blank_primary =
     Tag ''[document]'' [] [
       Tag ''span'' [(''data-test-id'', ''votes-meter-counter'')]
         [Str NavigableString ''  '', Tag ''style'' [] [Str Stylesheet ''b {}'']],
       Tag ''span'' [(''class'', ''votes'')] [Str NavigableString ''8''],
       Tag ''span'' [(''data-test-id'', ''comments-counter'')] []]"

definition soup_blank_fallback :: page_element where
  "soup_blank_fallback =
     Tag ''[document]'' [] [
       Tag ''span'' [(''class'', ''votes'')] [],
       Tag ''span'' [(''class'', ''comments'')] [Tag ''i'' [] [Str NavigableString '' '']]]"

definition soup_split :: page_element where
  "soup_split =
     Tag ''[document]'' [] [
       Tag ''div'' [(''class'', ''article-formatted-body'')] [
         Tag ''p'' [] [Str NavigableString '' Hello '', Tag ''b'' [] [Str NavigableString ''world'']]],
       Tag ''span'' [(''data-test-id'', ''votes-meter-counter'')]
         [Str NavigableString ''1 '', Tag ''b'' [] [Str NavigableString ''2'']]]"

text \<open>
  A run: the store holds two records, the first for an article of the listing; the pages
  of the other two articles are served, any other URL answers 404.
\<close>

definition record_a :: article_record where
  "record_a = \<lparr>title = ''Alpha'', url = ''https://habr.com/a'', text_full = ''old'',
               likes = ''1'', comments = ''2''\<rparr>"

definition record_b :: article_record where
  "record_b = \<lparr>title = ''Beta'', url = ''https://habr.com/b'', text_full = ''older'',
               likes = ''0'', comments = ''0''\<rparr>"

definition example_env :: env where
  "example_env =
     \<lparr>session_get = (\<lambda>n u.
          if u = HABR_URL then Inr ''listing''
          else if u = ''https://habr.com/c'' then Inr ''page c''
          else if u = ''https://habr.com/d'' then Inr ''page d''
          else Inl (HTTPError 404)),
      fromstring = (\<lambda>s. if s = ''listing'' then Inr example_listing else Inl ParserError),
      soup_of = (\<lambda>s. if s = ''page c'' then Inr soup_votes
                      else if s = ''page d'' then Inr soup_fallback else Inr soup_bare),
      int_of = (\<lambda>s. if s = ''3'' then Inr 3 else Inl ValueError)\<rparr>"

text \<open>The same site when every article request times out.\<close>

definition failing_env :: env where
  "failing_env =
     example_env\<lparr>session_get := (\<lambda>n u. if u = HABR_URL then Inr ''listing'' else Inl Timeout)\<rparr>"

definition example_world :: world where
  "example_world = \<lparr>store = Stored [record_a, record_b], trace = [], requests = 0\<rparr>"

definition corrupt_world :: world where
  "corrupt_world = \<lparr>store = Malformed, trace = [], requests = 0\<rparr>"


section \<open>Trimming\<close>

lemma lstrip_fix: "s = [] \<or> \<not> isspace (hd s) \<Longrightarrow> lstrip s = s"
  by (cases s) (auto simp: lstrip_def)

lemma rstrip_fix: "s = [] \<or> \<not> isspace (last s) \<Longrightarrow> rstrip s = s"
  by (cases s rule: rev_cases) (auto simp: rstrip_def)

lemma rstrip_last: "rstrip s \<noteq> [] \<Longrightarrow> \<not> isspace (last (rstrip s))"
  unfolding rstrip_def
  using hd_dropWhile [of isspace "rev s"] by (simp add: last_rev)

lemma rstrip_hd: "rstrip s \<noteq> [] \<Longrightarrow> hd (rstrip s) = hd s"
proof (induction s rule: rev_induct)
  case Nil
  then show ?case by (simp add: rstrip_def)
next
  case (snoc x xs)
  then show ?case
    by (cases xs) (auto simp: rstrip_def split: if_splits)
qed

lemma lstrip_hd: "lstrip s \<noteq> [] \<Longrightarrow> \<not> isspace (hd (lstrip s))"
  unfolding lstrip_def by (rule hd_dropWhile)

lemma strip_idem: "strip (strip s) = strip s"
proof (cases "strip s = []")
  case True
  have "strip [] = []" by (simp add: strip_def lstrip_def rstrip_def)
  with True show ?thesis by simp
next
  case False
  then have ne: "rstrip (lstrip s) \<noteq> []" by (simp add: strip_def)
  then have lne: "lstrip s \<noteq> []" by (auto simp: rstrip_def)
  have "hd (strip s) = hd (lstrip s)"
    using rstrip_hd [OF ne] by (simp add: strip_def)
  then have h: "\<not> isspace (hd (strip s))"
    using lstrip_hd [OF lne] by simp
  have l: "\<not> isspace (last (strip s))"
    using rstrip_last [OF ne] by (simp add: strip_def)
  have "lstrip (strip s) = strip s" using h by (simp add: lstrip_fix)
  moreover have "rstrip (strip s) = strip s" using l by (simp add: rstrip_fix)
  ultimately show ?thesis by (simp add: strip_def [of "strip s"])
qed


section \<open>Properties of the listing-page extractor\<close>

lemma str_or_Some: "str_or (Some s) [] = s"
  by (simp add: str_or_def)

lemma startswith_slash: "startswith s ''/'' \<longleftrightarrow> (\<exists>rest. s = CHR ''/'' # rest)"
  by (cases s) (auto simp: startswith_def)

lemma absolute_empty:
  "(if startswith h ''/'' then ''https://habr.com'' @ h else h) = [] \<longleftrightarrow> h = []"
  by (auto simp: startswith_def)

lemma parse_nodes_eq:
  "parse_nodes nodes results =
     results @
     map (\<lambda>a. \<lparr>title = anchor_title a,
               url = (if startswith (anchor_href a) ''/''
                      then ''https://habr.com'' @ anchor_href a else anchor_href a)\<rparr>)
       (filter anchor_emitted nodes)"
proof (induction nodes arbitrary: results)
  case Nil
  then show ?case by simp
next
  case (Cons a nodes)
  show ?case
    by (simp add: Cons.IH Let_def anchor_emitted_def absolute_empty
        anchor_title_def [symmetric] anchor_href_def [symmetric])
qed

text \<open>
  Claim C6. The stubs of a listing are, in order, those of its anchors that pass the
  emission test; for each of them, a link that begins with \<open>/\<close> is emitted behind
  \<open>https://habr.com\<close>, and a link that does not begin with \<open>/\<close> is emitted as it is.
\<close>

theorem parse_main_page_absolute_urls:
  "list_all2
     (\<lambda>a s. (\<forall>rest. anchor_href a = CHR ''/'' # rest \<longrightarrow>
                 url s = ''https://habr.com'' @ anchor_href a) \<and>
            ((\<forall>rest. anchor_href a \<noteq> CHR ''/'' # rest) \<longrightarrow> url s = anchor_href a))
     (filter anchor_emitted (xpath_article_h2_a tree)) (parse_tree tree)"
  unfolding parse_tree_def parse_nodes_eq
  by (simp add: list_all2_map2 list_all2_same startswith_slash)

text \<open>The example listing has two links of the first kind and one of the second.\<close>

theorem parse_main_page_absolute_urls_witness:
  "map anchor_href (filter anchor_emitted (xpath_article_h2_a example_listing)) =
     [''/a'', ''/c'', ''https://habr.com/d''] \<and>
   map url (parse_tree example_listing) =
     [''https://habr.com/a'', ''https://habr.com/c'', ''https://habr.com/d'']"
proof -
  have a: "filter anchor_emitted (xpath_article_h2_a example_listing) =
     [Element ''a'' [(''href'', ''/a'')] [Text '' Alpha ''],
      Element ''a'' [(''href'', ''/c'')] [Text ''Gamma '', Element ''b'' [] [Text ''3'']],
      Element ''a'' [(''href'', ''https://habr.com/d'')] [Text ''Delta'']]"
    by code_simp
  have h: "anchor_href (Element ''a'' [(''href'', ''/a'')] [Text '' Alpha '']) = ''/a''"
    "anchor_href (Element ''a'' [(''href'', ''/c'')] [Text ''Gamma '', Element ''b'' [] [Text ''3'']]) = ''/c''"
    "anchor_href (Element ''a'' [(''href'', ''https://habr.com/d'')] [Text ''Delta'']) = ''https://habr.com/d''"
    by (simp_all add: anchor_href_def str_or_def)
  obtain s1 s2 s3 where p: "parse_tree example_listing = [s1, s2, s3]"
    and u: "url s1 = ''https://habr.com'' @ ''/a''" "url s2 = ''https://habr.com'' @ ''/c''"
      "url s3 = ''https://habr.com/d''"
    using parse_main_page_absolute_urls [of example_listing] unfolding a
    by (auto simp: list_all2_Cons1 h)
  show ?thesis using p u by (simp add: a h)
qed

text \<open>
  Claim C7, amended. Every stub of a listing has a title that is not empty after trimming
  and a URL that is not empty. The link is tested as it stands in the attribute, untrimmed.
\<close>

theorem parse_main_page_nonempty_fields:
  "\<forall>s \<in> set (parse_tree tree). strip (title s) \<noteq> [] \<and> url s \<noteq> []"
  unfolding parse_tree_def parse_nodes_eq
  by (auto simp: anchor_emitted_def anchor_title_def strip_idem)

text \<open>
  Claim C7 as stated fails: an anchor whose link is a single blank is emitted, and its
  link is empty after trimming.
\<close>

theorem parse_main_page_blank_href:
  "parse_tree blank_href_listing = [\<lparr>title = ''Title'', url = '' ''\<rparr>] \<and> strip '' '' = []"
  by code_simp

text \<open>The amended property on that same listing.\<close>

theorem parse_main_page_nonempty_fields_witness:
  "\<lparr>title = ''Title'', url = '' ''\<rparr> \<in> set (parse_tree blank_href_listing) \<and>
   strip ''Title'' \<noteq> [] \<and> '' '' \<noteq> []"
proof -
  have m: "\<lparr>title = ''Title'', url = '' ''\<rparr> \<in> set (parse_tree blank_href_listing)"
    by code_simp
  from parse_main_page_nonempty_fields [of blank_href_listing] m
  have "strip (title \<lparr>title = ''Title'', url = '' ''\<rparr>) \<noteq> [] \<and>
        url \<lparr>title = ''Title'', url = '' ''\<rparr> \<noteq> []"
    by blast
  with m show ?thesis by simp
qed


section \<open>Properties of the article-page extractor\<close>

lemma strip_empty_iff: "strip s = [] \<longleftrightarrow> (\<forall>c \<in> set s. isspace c)"
proof
  assume "strip s = []"
  then have "\<forall>c \<in> set (dropWhile isspace s). isspace c"
    by (simp add: strip_def rstrip_def lstrip_def dropWhile_eq_Nil_conv)
  then have "dropWhile isspace s = []"
    using hd_dropWhile [of isspace s] hd_in_set [of "dropWhile isspace s"] by blast
  then show "\<forall>c \<in> set s. isspace c"
    by (simp add: dropWhile_eq_Nil_conv)
next
  assume "\<forall>c \<in> set s. isspace c"
  then have d: "dropWhile isspace s = []"
    by (simp add: dropWhile_eq_Nil_conv)
  show "strip s = []"
    unfolding strip_def rstrip_def lstrip_def d by simp
qed

lemma glued_empty_iff:
  "concat (filter (\<lambda>s. s \<noteq> []) (map strip xs)) = [] \<longleftrightarrow> strip (concat xs) = []"
  by (auto simp: strip_empty_iff)

lemma blank_text_iff: "get_text_strip e = [] \<longleftrightarrow> spec_trimmed_text e = []"
  unfolding get_text_strip_def spec_trimmed_text_def by (rule glued_empty_iff)

lemma collect_texts_eq:
  "collect_texts ps paragraphs =
     paragraphs @ filter (\<lambda>t. t \<noteq> []) (map get_text_strip ps)"
  by (induction ps arbitrary: paragraphs) (simp_all add: Let_def)

lemma collect_bodies_eq:
  "collect_bodies divs paragraphs =
     paragraphs @
     filter (\<lambda>t. t \<noteq> [])
       (concat (map (\<lambda>d. map get_text_strip (find_all [''p'', ''li''] d)) divs))"
  by (induction divs arbitrary: paragraphs) (simp_all add: collect_texts_eq)

lemma text_or_zero_tag_or:
  "text_or_zero (tag_or (select_one p soup) (select_one f soup)) =
     (case select p soup of
        e # es \<Rightarrow> get_text_strip e
      | [] \<Rightarrow> (case select f soup of e # es \<Rightarrow> get_text_strip e | [] \<Rightarrow> ''0''))"
  by (simp add: text_or_zero_def tag_or_def tag_truthy_def select_one_def split: list.splits)

lemma likes_eq:
  "article_data.likes (get_article_data soup) =
     text_or_zero (tag_or (select_one likes_primary soup) (select_one likes_fallback soup))"
  by (simp add: get_article_data_def Let_def)

lemma comments_eq:
  "article_data.comments (get_article_data soup) =
     text_or_zero (tag_or (select_one comments_primary soup) (select_one comments_fallback soup))"
  by (simp add: get_article_data_def Let_def)

text \<open>
  Claim C5, amended. The text of an article is the newline-joined list of the texts of the
  \<open>p\<close> and \<open>li\<close> elements below the \<open>div\<close> elements of class \<open>article-formatted-body\<close>:
  containers in document order, the elements of a container in document order, the empty
  texts left out. The text of an element is not its visible text trimmed as a whole: each
  string below it that \<open>get_text\<close> keeps (none inside \<open>script\<close>, \<open>style\<close>, \<open>template\<close>,
  \<open>rt\<close> or \<open>rp\<close>, and no comment) is trimmed on its own, the empty ones are dropped and
  the rest are concatenated without a separator.
\<close>

theorem get_article_data_text_in_order:
  "article_data.text_full (get_article_data soup) =
     join [CHR 0x0A]
       (filter (\<lambda>t. t \<noteq> [])
          (concat
             (map (\<lambda>d. map (\<lambda>e. concat (filter (\<lambda>s. s \<noteq> []) (map strip (all_strings e))))
                          (filter (\<lambda>n. is_tag ''p'' n \<or> is_tag ''li'' n) (descendants d)))
                (filter (\<lambda>n. is_tag ''div'' n \<and> ''article-formatted-body'' \<in> set (class_tokens n))
                   (descendants soup)))))"
proof -
  have f: "find_all [''p'', ''li''] d =
      filter (\<lambda>n. is_tag ''p'' n \<or> is_tag ''li'' n) (descendants d)" for d
    by (simp add: find_all_def)
  have s: "select body_selector soup =
      filter (\<lambda>n. is_tag ''div'' n \<and> ''article-formatted-body'' \<in> set (class_tokens n))
        (descendants soup)"
    by (simp add: select_def body_selector_def cong: filter_cong)
  have g: "get_text_strip = (\<lambda>e. concat (filter (\<lambda>s. s \<noteq> []) (map strip (all_strings e))))"
    by (rule ext) (simp add: get_text_strip_def)
  show ?thesis
    by (simp add: get_article_data_def Let_def collect_bodies_eq f s g)
qed

text \<open>
  Claim C5 as stated fails: the paragraph \<open>" Hello <b>world</b>"\<close> has the trimmed
  visible text \<open>"Hello world"\<close>, and the extractor stores \<open>"Helloworld"\<close>.
\<close>

theorem get_article_data_text_glued:
  "article_data.text_full (get_article_data soup_split) = ''Helloworld'' \<and>
   spec_article_text soup_split = ''Hello world''"
  by code_simp

text \<open>
  On \<open>soup_votes\<close>: a paragraph of two strings and a script, a paragraph holding a blank
  and a comment, and a list item.
\<close>

theorem get_article_data_text_in_order_witness:
  "article_data.text_full (get_article_data soup_votes) =
     ''Hello'' @ ''world'' @ [CHR 0x0A] @ ''item''"
proof -
  have r: "join [CHR 0x0A]
       (filter (\<lambda>t. t \<noteq> [])
          (concat
             (map (\<lambda>d. map (\<lambda>e. concat (filter (\<lambda>s. s \<noteq> []) (map strip (all_strings e))))
                          (filter (\<lambda>n. is_tag ''p'' n \<or> is_tag ''li'' n) (descendants d)))
                (filter (\<lambda>n. is_tag ''div'' n \<and> ''article-formatted-body'' \<in> set (class_tokens n))
                   (descendants soup_votes))))) =
     ''Hello'' @ ''world'' @ [CHR 0x0A] @ ''item''"
    by code_simp
  show ?thesis
    using get_article_data_text_in_order [of soup_votes] unfolding r .
qed

text \<open>
  Claim C4, amended. Likes: when the primary selector matches, the text of its first match
  is returned; when it matches nothing and the fallback selector matches, the text of the
  fallback's first match; when neither matches, \<open>"0"\<close>. Comments: the same with the
  comment selectors. The text of the element is not its text trimmed as a whole: each
  string below it that \<open>get_text\<close> keeps is trimmed on its own, the empty ones are dropped
  and the rest are concatenated without a separator.
\<close>

theorem get_article_data_two_tier:
  "(\<forall>e es. select likes_primary soup = e # es \<longrightarrow>
      article_data.likes (get_article_data soup) =
        concat (filter (\<lambda>s. s \<noteq> []) (map strip (all_strings e)))) \<and>
   (\<forall>e es. select likes_primary soup = [] \<and> select likes_fallback soup = e # es \<longrightarrow>
      article_data.likes (get_article_data soup) =
        concat (filter (\<lambda>s. s \<noteq> []) (map strip (all_strings e)))) \<and>
   (select likes_primary soup = [] \<and> select likes_fallback soup = [] \<longrightarrow>
      article_data.likes (get_article_data soup) = ''0'') \<and>
   (\<forall>e es. select comments_primary soup = e # es \<longrightarrow>
      article_data.comments (get_article_data soup) =
        concat (filter (\<lambda>s. s \<noteq> []) (map strip (all_strings e)))) \<and>
   (\<forall>e es. select comments_primary soup = [] \<and> select comments_fallback soup = e # es \<longrightarrow>
      article_data.comments (get_article_data soup) =
        concat (filter (\<lambda>s. s \<noteq> []) (map strip (all_strings e)))) \<and>
   (select comments_primary soup = [] \<and> select comments_fallback soup = [] \<longrightarrow>
      article_data.comments (get_article_data soup) = ''0'')"
  by (simp add: likes_eq comments_eq text_or_zero_tag_or get_text_strip_def)

text \<open>
  Claim C4 as stated fails: the vote counter \<open>"1 <b>2</b>"\<close> has the trimmed text
  \<open>"1 2"\<close>, and the extractor returns \<open>"12"\<close>.
\<close>

theorem get_article_data_likes_glued:
  "select likes_primary soup_split =
     [Tag ''span'' [(''data-test-id'', ''votes-meter-counter'')]
        [Str NavigableString ''1 '', Tag ''b'' [] [Str NavigableString ''2'']]] \<and>
   spec_trimmed_text
     (Tag ''span'' [(''data-test-id'', ''votes-meter-counter'')]
        [Str NavigableString ''1 '', Tag ''b'' [] [Str NavigableString ''2'']]) = ''1 2'' \<and>
   article_data.likes (get_article_data soup_split) = ''12''"
  by code_simp

text \<open>
  The three example pages cover the three cases, for likes and for comments; the template
  inside the comment counter of \<open>soup_votes\<close> adds nothing to its text.
\<close>

theorem get_article_data_two_tier_witness:
  "select likes_primary soup_votes =
     [Tag ''span'' [(''data-test-id'', ''votes-meter-counter'')] [Str NavigableString '' +12 '']] \<and>
   article_data.likes (get_article_data soup_votes) = ''+12'' \<and>
   select comments_primary soup_votes = [] \<and>
   select comments_fallback soup_votes =
     [Tag ''span'' [(''class'', ''tm-comments-count'')]
        [Str NavigableString '' 7'', Tag ''template'' [] [Str TemplateString ''tpl'']]] \<and>
   article_data.comments (get_article_data soup_votes) = ''7'' \<and>
   select likes_primary soup_fallback = [] \<and>
   select likes_fallback soup_fallback =
     [Tag ''span'' [(''class'', ''votes'')] [Str NavigableString ''3'']] \<and>
   article_data.likes (get_article_data soup_fallback) = ''3'' \<and>
   select comments_primary soup_fallback = [] \<and>
   select comments_fallback soup_fallback = [] \<and>
   article_data.comments (get_article_data soup_fallback) = ''0'' \<and>
   select likes_primary soup_bare = [] \<and>
   select likes_fallback soup_bare = [] \<and>
   article_data.likes (get_article_data soup_bare) = ''0'' \<and>
   select comments_primary soup_bare =
     [Tag ''span'' [(''data-test-id'', ''comments-counter'')] [Str NavigableString ''15'']] \<and>
   article_data.comments (get_article_data soup_bare) = ''15''"
proof -
  have v: "select likes_primary soup_votes =
      [Tag ''span'' [(''data-test-id'', ''votes-meter-counter'')] [Str NavigableString '' +12 '']]"
    "select comments_primary soup_votes = []"
    "select comments_fallback soup_votes =
      [Tag ''span'' [(''class'', ''tm-comments-count'')]
        [Str NavigableString '' 7'', Tag ''template'' [] [Str TemplateString ''tpl'']]]"
    by code_simp+
  have f: "select likes_primary soup_fallback = []"
    "select likes_fallback soup_fallback =
      [Tag ''span'' [(''class'', ''votes'')] [Str NavigableString ''3'']]"
    "select comments_primary soup_fallback = []"
    "select comments_fallback soup_fallback = []"
    by code_simp+
  have b: "select likes_primary soup_bare = []"
    "select likes_fallback soup_bare = []"
    "select comments_primary soup_bare =
      [Tag ''span'' [(''data-test-id'', ''comments-counter'')] [Str NavigableString ''15'']]"
    by code_simp+
  have t: "concat (filter (\<lambda>s. s \<noteq> []) (map strip (all_strings
             (Tag ''span'' [(''data-test-id'', ''votes-meter-counter'')]
                [Str NavigableString '' +12 ''])))) = ''+12''"
    "concat (filter (\<lambda>s. s \<noteq> []) (map strip (all_strings
             (Tag ''span'' [(''class'', ''tm-comments-count'')]
                [Str NavigableString '' 7'', Tag ''template'' [] [Str TemplateString ''tpl'']]))))
       = ''7''"
    "concat (filter (\<lambda>s. s \<noteq> []) (map strip (all_strings
             (Tag ''span'' [(''class'', ''votes'')] [Str NavigableString ''3''])))) = ''3''"
    "concat (filter (\<lambda>s. s \<noteq> []) (map strip (all_strings
             (Tag ''span'' [(''data-test-id'', ''comments-counter'')]
                [Str NavigableString ''15''])))) = ''15''"
    by code_simp+
  show ?thesis
    using get_article_data_two_tier [of soup_votes] get_article_data_two_tier [of soup_fallback]
      get_article_data_two_tier [of soup_bare]
    by (simp add: v f b t)
qed

text \<open>
  Claim C10. An element is blank in the sense of the specification (its text, trimmed as a
  whole, is empty) exactly when the text the extractor takes from it is empty. When the
  element chosen for the likes (the first match of the primary selector, or else the first
  match of the fallback) is blank, the likes are the empty string; and whenever either
  selector matches, the likes are the text of a matched element, so the default \<open>"0"\<close>
  is used only when nothing matches. The same holds for the comments.
\<close>

theorem get_article_data_blank_counter:
  "(\<forall>e. (spec_trimmed_text e = []) = (get_text_strip e = [])) \<and>
   (\<forall>e es. select likes_primary soup = e # es \<and> spec_trimmed_text e = [] \<longrightarrow>
      article_data.likes (get_article_data soup) = []) \<and>
   (\<forall>e es. select likes_primary soup = [] \<and> select likes_fallback soup = e # es \<and>
      spec_trimmed_text e = [] \<longrightarrow> article_data.likes (get_article_data soup) = []) \<and>
   (select likes_primary soup \<noteq> [] \<or> select likes_fallback soup \<noteq> [] \<longrightarrow>
      (\<exists>e. e \<in> set (select likes_primary soup @ select likes_fallback soup) \<and>
           article_data.likes (get_article_data soup) = get_text_strip e)) \<and>
   (\<forall>e es. select comments_primary soup = e # es \<and> spec_trimmed_text e = [] \<longrightarrow>
      article_data.comments (get_article_data soup) = []) \<and>
   (\<forall>e es. select comments_primary soup = [] \<and> select comments_fallback soup = e # es \<and>
      spec_trimmed_text e = [] \<longrightarrow> article_data.comments (get_article_data soup) = []) \<and>
   (select comments_primary soup \<noteq> [] \<or> select comments_fallback soup \<noteq> [] \<longrightarrow>
      (\<exists>e. e \<in> set (select comments_primary soup @ select comments_fallback soup) \<and>
           article_data.comments (get_article_data soup) = get_text_strip e))"
  by (auto simp: likes_eq comments_eq text_or_zero_tag_or blank_text_iff split: list.splits)

text \<open>
  Pages whose counters hold a style sheet, blanks or nothing: all four values are empty,
  not \<open>"0"\<close>.
\<close>

theorem get_article_data_blank_counter_witness:
  "select likes_primary soup_blank_primary =
     [Tag ''span'' [(''data-test-id'', ''votes-meter-counter'')]
        [Str NavigableString ''  '', Tag ''style'' [] [Str Stylesheet ''b {}'']]] \<and>
   spec_trimmed_text (Tag ''span'' [(''data-test-id'', ''votes-meter-counter'')]
        [Str NavigableString ''  '', Tag ''style'' [] [Str Stylesheet ''b {}'']]) = [] \<and>
   article_data.likes (get_article_data soup_blank_primary) = [] \<and>
   select comments_primary soup_blank_primary =
     [Tag ''span'' [(''data-test-id'', ''comments-counter'')] []] \<and>
   spec_trimmed_text (Tag ''span'' [(''data-test-id'', ''comments-counter'')] []) = [] \<and>
   article_data.comments (get_article_data soup_blank_primary) = [] \<and>
   select likes_primary soup_blank_fallback = [] \<and>
   select likes_fallback soup_blank_fallback = [Tag ''span'' [(''class'', ''votes'')] []] \<and>
   spec_trimmed_text (Tag ''span'' [(''class'', ''votes'')] []) = [] \<and>
   article_data.likes (get_article_data soup_blank_fallback) = [] \<and>
   select comments_primary soup_blank_fallback = [] \<and>
   select comments_fallback soup_blank_fallback =
     [Tag ''span'' [(''class'', ''comments'')] [Tag ''i'' [] [Str NavigableString '' '']]] \<and>
   spec_trimmed_text
     (Tag ''span'' [(''class'', ''comments'')] [Tag ''i'' [] [Str NavigableString '' '']]) = [] \<and>
   article_data.comments (get_article_data soup_blank_fallback) = []"
proof -
  have p: "select likes_primary soup_blank_primary =
      [Tag ''span'' [(''data-test-id'', ''votes-meter-counter'')]
        [Str NavigableString ''  '', Tag ''style'' [] [Str Stylesheet ''b {}'']]]"
    "select comments_primary soup_blank_primary =
      [Tag ''span'' [(''data-test-id'', ''comments-counter'')] []]"
    by code_simp+
  have f: "select likes_primary soup_blank_fallback = []"
    "select likes_fallback soup_blank_fallback = [Tag ''span'' [(''class'', ''votes'')] []]"
    "select comments_primary soup_blank_fallback = []"
    "select comments_fallback soup_blank_fallback =
      [Tag ''span'' [(''class'', ''comments'')] [Tag ''i'' [] [Str NavigableString '' '']]]"
    by code_simp+
  have t: "spec_trimmed_text (Tag ''span'' [(''data-test-id'', ''votes-meter-counter'')]
        [Str NavigableString ''  '', Tag ''style'' [] [Str Stylesheet ''b {}'']]) = []"
    "spec_trimmed_text (Tag ''span'' [(''data-test-id'', ''comments-counter'')] []) = []"
    "spec_trimmed_text (Tag ''span'' [(''class'', ''votes'')] []) = []"
    "spec_trimmed_text
       (Tag ''span'' [(''class'', ''comments'')] [Tag ''i'' [] [Str NavigableString '' '']]) = []"
    by code_simp+
  have "article_data.likes (get_article_data soup_blank_primary) = [] \<and>
        article_data.comments (get_article_data soup_blank_primary) = []"
    using get_article_data_blank_counter [of soup_blank_primary] p t by blast
  moreover have "article_data.likes (get_article_data soup_blank_fallback) = [] \<and>
        article_data.comments (get_article_data soup_blank_fallback) = []"
    using get_article_data_blank_counter [of soup_blank_fallback] f t by blast
  ultimately show ?thesis
    using p f t by simp
qed


section \<open>Properties of the driver\<close>

lemma gets_append: "gets (xs @ ys) = gets xs @ gets ys"
  by (induction xs rule: gets.induct) auto

lemma writes_append: "writes (xs @ ys) = writes xs @ writes ys"
  by (induction xs rule: writes.induct) auto

lemma considered_append: "considered (xs @ ys) = considered xs @ considered ys"
  by (induction xs rule: considered.induct) auto

lemma try_article_eq:
  "try_article E art w =
     (w\<lparr>trace := trace w @ [Print (Parsing (title art)), Get (url art)],
        requests := Suc (requests w)\<rparr>, article_result E (requests w) art)"
  by (simp add: try_article_def fetch_html_def emit_def article_result_def
      split: sum.splits)

lemma main_loop_store:
  "store (fst (main_loop E known arts (w, new))) = store w"
  by (induction arts arbitrary: w new)
     (auto simp: try_article_eq emit_def split: sum.splits)

lemma main_loop_requests:
  "requests (fst (main_loop E known arts (w, new))) =
     requests w + length (filter (\<lambda>a. url a \<notin> known) arts)"
  by (induction arts arbitrary: w new)
     (auto simp: try_article_eq emit_def split: sum.splits)

lemma main_loop_new:
  "snd (main_loop E known arts (w, new)) =
     new @ new_records E (requests w) (filter (\<lambda>a. url a \<notin> known) arts)"
  by (induction arts arbitrary: w new)
     (auto simp: try_article_eq emit_def split: sum.splits)

lemma main_loop_gets:
  "gets (trace (fst (main_loop E known arts (w, new)))) =
     gets (trace w) @ map url (filter (\<lambda>a. url a \<notin> known) arts)"
  by (induction arts arbitrary: w new)
     (auto simp: try_article_eq emit_def gets_append split: sum.splits)

lemma main_loop_writes:
  "writes (trace (fst (main_loop E known arts (w, new)))) = writes (trace w)"
  by (induction arts arbitrary: w new)
     (auto simp: try_article_eq emit_def writes_append split: sum.splits)

lemma main_loop_considered:
  "considered (trace (fst (main_loop E known arts (w, new)))) =
     considered (trace w) @ map title arts"
  by (induction arts arbitrary: w new)
     (auto simp: try_article_eq emit_def considered_append split: sum.splits)


lemma main_unfold:
  assumes "load_existing_data (store w) = Inr existing_data"
    and "session_get E (requests w) HABR_URL = Inr main_html"
    and "parse_main_page E main_html = Inr stubs"
    and "main_loop E (set (map url existing_data)) (slice_to stubs limit)
           (emit (Get HABR_URL) (w\<lparr>requests := Suc (requests w)\<rparr>), []) = (w2, new_articles)"
  shows "main E limit w =
     (if new_articles \<noteq> []
      then (emit (Print (Added (length new_articles)))
              (save_data (existing_data @ new_articles) w2), Inr ())
      else (emit (Print NoNew) w2, Inr ()))"
  using assms by (simp add: main_def fetch_html_def)

text \<open>
  Claim C1. In a run that loads its store and obtains the listing, the requests are the
  listing followed by the pages of exactly those candidates whose URL is not among the
  URLs of the existing records, in candidate order; a candidate whose URL is among them
  is never requested. The store then holds the existing records followed by the records
  built from those requests, in candidate order.
\<close>

theorem main_skips_known_appends_new:
  assumes "load_existing_data (store w) = Inr existing_data"
    and "session_get E (requests w) HABR_URL = Inr main_html"
    and "parse_main_page E main_html = Inr stubs"
  shows "gets (trace (fst (main E limit w))) =
           gets (trace w) @ HABR_URL #
             map url (filter (\<lambda>a. url a \<notin> set (map url existing_data)) (slice_to stubs limit))
       \<and> load_existing_data (store (fst (main E limit w))) =
           Inr (existing_data @
                new_records E (Suc (requests w))
                  (filter (\<lambda>a. url a \<notin> set (map url existing_data)) (slice_to stubs limit)))"
proof -
  let ?known = "set (map url existing_data)"
  let ?w1 = "emit (Get HABR_URL) (w\<lparr>requests := Suc (requests w)\<rparr>)"
  let ?run = "main_loop E ?known (slice_to stubs limit) (?w1, [])"
  let ?todo = "filter (\<lambda>a. url a \<notin> ?known) (slice_to stubs limit)"
  have run: "?run = (fst ?run, snd ?run)" by simp
  note m = main_unfold [OF assms run]
  have new: "snd ?run = new_records E (Suc (requests w)) ?todo"
    using main_loop_new [of E ?known "slice_to stubs limit" ?w1 "[]"]
    by (simp add: emit_def)
  have g: "gets (trace (fst ?run)) = gets (trace w) @ HABR_URL # map url ?todo"
    using main_loop_gets [of E ?known "slice_to stubs limit" ?w1 "[]"]
    by (simp add: emit_def gets_append)
  have s: "store (fst ?run) = store w"
    using main_loop_store [of E ?known "slice_to stubs limit" ?w1 "[]"]
    by (simp add: emit_def)
  show ?thesis
  proof (cases "snd ?run = []")
    case True
    then have "fst (main E limit w) = emit (Print NoNew) (fst ?run)"
      using m by simp
    then show ?thesis
      using g s new True assms(1) by (simp add: emit_def gets_append)
  next
    case False
    then have "fst (main E limit w) =
        emit (Print (Added (length (snd ?run)))) (save_data (existing_data @ snd ?run) (fst ?run))"
      using m by simp
    then show ?thesis
      using g new by (simp add: emit_def save_data_def gets_append load_existing_data_def)
  qed
qed

text \<open>
  The store knows Alpha and Beta, the listing yields Alpha, Gamma, Delta and the limit is
  3: only Gamma and Delta are requested, and their records follow the two old ones.
\<close>

theorem main_skips_known_appends_new_witness:
  "load_existing_data (store example_world) = Inr [record_a, record_b] \<and>
   session_get example_env (requests example_world) HABR_URL = Inr ''listing'' \<and>
   parse_main_page example_env ''listing'' =
     Inr [\<lparr>title = ''Alpha'', url = ''https://habr.com/a''\<rparr>,
          \<lparr>title = ''Gamma 3'', url = ''https://habr.com/c''\<rparr>,
          \<lparr>title = ''Delta'', url = ''https://habr.com/d''\<rparr>] \<and>
   gets (trace (fst (main example_env 3 example_world))) =
     [HABR_URL, ''https://habr.com/c'', ''https://habr.com/d''] \<and>
   load_existing_data (store (fst (main example_env 3 example_world))) =
     Inr [record_a, record_b,
          \<lparr>title = ''Gamma 3'', url = ''https://habr.com/c'',
            text_full = ''Hello'' @ ''world'' @ [CHR 0x0A] @ ''item'',
            likes = ''+12'', comments = ''7''\<rparr>,
          \<lparr>title = ''Delta'', url = ''https://habr.com/d'', text_full = ''Body'',
            likes = ''3'', comments = ''0''\<rparr>]"
proof -
  let ?stubs = "[\<lparr>title = ''Alpha'', url = ''https://habr.com/a''\<rparr>,
          \<lparr>title = ''Gamma 3'', url = ''https://habr.com/c''\<rparr>,
          \<lparr>title = ''Delta'', url = ''https://habr.com/d''\<rparr>]"
  have h1: "load_existing_data (store example_world) = Inr [record_a, record_b]"
    by (simp add: example_world_def load_existing_data_def)
  have h2: "session_get example_env (requests example_world) HABR_URL = Inr ''listing''"
    by (simp add: example_env_def)
  have h3: "parse_main_page example_env ''listing'' = Inr ?stubs"
    by code_simp
  have todo: "filter (\<lambda>a. url a \<notin> set (map url [record_a, record_b])) (slice_to ?stubs 3) =
      [\<lparr>title = ''Gamma 3'', url = ''https://habr.com/c''\<rparr>,
       \<lparr>title = ''Delta'', url = ''https://habr.com/d''\<rparr>]"
    by code_simp
  have new: "new_records example_env (Suc (requests example_world))
       [\<lparr>title = ''Gamma 3'', url = ''https://habr.com/c''\<rparr>,
        \<lparr>title = ''Delta'', url = ''https://habr.com/d''\<rparr>] =
     [\<lparr>title = ''Gamma 3'', url = ''https://habr.com/c'',
            text_full = ''Hello'' @ ''world'' @ [CHR 0x0A] @ ''item'',
            likes = ''+12'', comments = ''7''\<rparr>,
          \<lparr>title = ''Delta'', url = ''https://habr.com/d'', text_full = ''Body'',
            likes = ''3'', comments = ''0''\<rparr>]"
    by code_simp
  have t: "gets (trace example_world) = []"
    by (simp add: example_world_def)
  show ?thesis
    using main_skips_known_appends_new [OF h1 h2 h3, of 3] h1 h2 h3
    unfolding todo new t by simp
qed

lemma fst_fetch_html:
  "fst (fetch_html E u w) = emit (Get u) (w\<lparr>requests := Suc (requests w)\<rparr>)"
  by (simp add: fetch_html_def)

text \<open>
  Claim C2. In a run that reaches the loop and ends it with an empty \<open>new_articles\<close>
  buffer, the store file is the one the run started with and nothing is written to it.
\<close>

theorem main_no_save_when_buffer_empty:
  assumes "load_existing_data (store w) = Inr existing_data"
    and "session_get E (requests w) HABR_URL = Inr main_html"
    and "parse_main_page E main_html = Inr stubs"
    and "snd (main_loop E (set (map url existing_data)) (slice_to stubs limit)
                (fst (fetch_html E HABR_URL w), [])) = []"
  shows "store (fst (main E limit w)) = store w \<and>
         writes (trace (fst (main E limit w))) = writes (trace w)"
proof -
  let ?known = "set (map url existing_data)"
  let ?w1 = "emit (Get HABR_URL) (w\<lparr>requests := Suc (requests w)\<rparr>)"
  let ?run = "main_loop E ?known (slice_to stubs limit) (?w1, [])"
  have run: "?run = (fst ?run, snd ?run)" by simp
  have empty: "snd ?run = []"
    using assms(4) by (simp add: fst_fetch_html)
  have "main E limit w = (emit (Print NoNew) (fst ?run), Inr ())"
    using main_unfold [OF assms(1-3) run] empty by simp
  moreover have "store (fst ?run) = store w"
    using main_loop_store [of E ?known "slice_to stubs limit" ?w1 "[]"]
    by (simp add: emit_def)
  moreover have "writes (trace (fst ?run)) = writes (trace w)"
    using main_loop_writes [of E ?known "slice_to stubs limit" ?w1 "[]"]
    by (simp add: emit_def writes_append)
  ultimately show ?thesis
    by (simp add: emit_def writes_append)
qed

text \<open>
  Alpha is known and the pages of Gamma and Delta time out: the buffer stays empty and
  the store is untouched.
\<close>

theorem main_no_save_when_buffer_empty_witness:
  "load_existing_data (store example_world) = Inr [record_a, record_b] \<and>
   session_get failing_env (requests example_world) HABR_URL = Inr ''listing'' \<and>
   parse_main_page failing_env ''listing'' =
     Inr [\<lparr>title = ''Alpha'', url = ''https://habr.com/a''\<rparr>,
          \<lparr>title = ''Gamma 3'', url = ''https://habr.com/c''\<rparr>,
          \<lparr>title = ''Delta'', url = ''https://habr.com/d''\<rparr>] \<and>
   snd (main_loop failing_env (set (map url [record_a, record_b]))
          (slice_to [\<lparr>title = ''Alpha'', url = ''https://habr.com/a''\<rparr>,
                     \<lparr>title = ''Gamma 3'', url = ''https://habr.com/c''\<rparr>,
                     \<lparr>title = ''Delta'', url = ''https://habr.com/d''\<rparr>] 3)
          (fst (fetch_html failing_env HABR_URL example_world), [])) = [] \<and>
   store (fst (main failing_env 3 example_world)) = Stored [record_a, record_b] \<and>
   writes (trace (fst (main failing_env 3 example_world))) = []"
proof -
  let ?stubs = "[\<lparr>title = ''Alpha'', url = ''https://habr.com/a''\<rparr>,
          \<lparr>title = ''Gamma 3'', url = ''https://habr.com/c''\<rparr>,
          \<lparr>title = ''Delta'', url = ''https://habr.com/d''\<rparr>]"
  have h1: "load_existing_data (store example_world) = Inr [record_a, record_b]"
    by (simp add: example_world_def load_existing_data_def)
  have h2: "session_get failing_env (requests example_world) HABR_URL = Inr ''listing''"
    by (simp add: failing_env_def)
  have h3: "parse_main_page failing_env ''listing'' = Inr ?stubs"
    by code_simp
  have h4: "snd (main_loop failing_env (set (map url [record_a, record_b])) (slice_to ?stubs 3)
          (fst (fetch_html failing_env HABR_URL example_world), [])) = []"
    by code_simp
  have w: "store example_world = Stored [record_a, record_b]" "writes (trace example_world) = []"
    by (simp_all add: example_world_def)
  show ?thesis
    using main_no_save_when_buffer_empty [OF h1 h2 h3 h4] h1 h2 h3 h4
    unfolding w by simp
qed

text \<open>
  Claim C3. Loading an absent store file gives the empty list. With an unparseable store
  file the run ends with the decoding error in the world it started in: no request has been
  sent and nothing has been printed or written.
\<close>

theorem load_absent_empty_malformed_fatal:
  "load_existing_data Absent = Inr [] \<and>
   (store w = Malformed \<longrightarrow> main E limit w = (w, Inl JSONDecodeError))"
  by (simp add: load_existing_data_def main_def)

text \<open>
  A run on a corrupt store.
\<close>

theorem load_absent_empty_malformed_fatal_witness:
  "store corrupt_world = Malformed \<and>
   main example_env 5 corrupt_world = (corrupt_world, Inl JSONDecodeError) \<and>
   gets (trace corrupt_world) = [] \<and> requests corrupt_world = 0"
proof -
  have m: "store corrupt_world = Malformed"
    by (simp add: corrupt_world_def)
  have t: "gets (trace corrupt_world) = [] \<and> requests corrupt_world = 0"
    by (simp add: corrupt_world_def)
  from load_absent_empty_malformed_fatal [of corrupt_world example_env 5] m t
  show ?thesis by blast
qed

lemma main_loop_trace:
  "trace (fst (main_loop E known arts (w, new))) =
     trace w @ loop_events E known (requests w) arts"
  by (induction arts arbitrary: w new)
     (auto simp: try_article_eq emit_def split: sum.splits)

text \<open>
  Claim C8, amended. The trace of a run that reaches the loop is the request for the
  listing, then the events of the candidates in order, then the closing events. A
  candidate that is not skipped leaves its announcement, its request, the failure notice
  if its fetch or parse failed, and after these a delay of one second; a candidate that
  is skipped as known leaves only its skip notice, and no delay.
\<close>

theorem main_delay_after_fetched_only:
  assumes "load_existing_data (store w) = Inr existing_data"
    and "session_get E (requests w) HABR_URL = Inr main_html"
    and "parse_main_page E main_html = Inr stubs"
  shows "trace (fst (main E limit w)) =
           trace w @ [Get HABR_URL] @
           loop_events E (set (map url existing_data)) (Suc (requests w)) (slice_to stubs limit) @
           (if new_records E (Suc (requests w))
                 (filter (\<lambda>a. url a \<notin> set (map url existing_data)) (slice_to stubs limit)) = []
            then [Print NoNew]
            else [Write (existing_data @
                         new_records E (Suc (requests w))
                           (filter (\<lambda>a. url a \<notin> set (map url existing_data))
                              (slice_to stubs limit))),
                  Print (Added (length
                    (new_records E (Suc (requests w))
                       (filter (\<lambda>a. url a \<notin> set (map url existing_data))
                          (slice_to stubs limit)))))])"
proof -
  let ?known = "set (map url existing_data)"
  let ?w1 = "emit (Get HABR_URL) (w\<lparr>requests := Suc (requests w)\<rparr>)"
  let ?run = "main_loop E ?known (slice_to stubs limit) (?w1, [])"
  let ?new = "new_records E (Suc (requests w))
                (filter (\<lambda>a. url a \<notin> ?known) (slice_to stubs limit))"
  have run: "?run = (fst ?run, snd ?run)" by simp
  have new: "snd ?run = ?new"
    using main_loop_new [of E ?known "slice_to stubs limit" ?w1 "[]"]
    by (simp add: emit_def)
  have tr: "trace (fst ?run) =
      trace w @ [Get HABR_URL] @ loop_events E ?known (Suc (requests w)) (slice_to stubs limit)"
    using main_loop_trace [of E ?known "slice_to stubs limit" ?w1 "[]"]
    by (simp add: emit_def)
  show ?thesis
  proof (cases "?new = []")
    case True
    then have "fst (main E limit w) = emit (Print NoNew) (fst ?run)"
      using main_unfold [OF assms run] new by simp
    then show ?thesis
      using tr True by (simp add: emit_def)
  next
    case False
    then have "fst (main E limit w) =
        emit (Print (Added (length ?new))) (save_data (existing_data @ ?new) (fst ?run))"
      using main_unfold [OF assms run] new by simp
    then show ?thesis
      using tr False by (simp add: emit_def save_data_def)
  qed
qed

text \<open>
  Claim C8 as stated fails: with a limit of 1 the only candidate is the known Alpha; it is
  skipped and the run ends without any delay.
\<close>

theorem main_skip_without_delay:
  "trace (fst (main example_env 1 example_world)) =
     [Get HABR_URL, Print (Skipped ''Alpha''), Print NoNew]"
  by code_simp

text \<open>
  Two runs with a limit of 3. When both fetches time out, the delay follows each failure
  notice; when both succeed, it follows each request; the skipped Alpha has none.
\<close>

theorem main_delay_after_fetched_only_witness:
  "load_existing_data (store example_world) = Inr [record_a, record_b] \<and>
   session_get failing_env (requests example_world) HABR_URL = Inr ''listing'' \<and>
   parse_main_page failing_env ''listing'' =
     Inr [\<lparr>title = ''Alpha'', url = ''https://habr.com/a''\<rparr>,
          \<lparr>title = ''Gamma 3'', url = ''https://habr.com/c''\<rparr>,
          \<lparr>title = ''Delta'', url = ''https://habr.com/d''\<rparr>] \<and>
   trace (fst (main failing_env 3 example_world)) =
     [Get HABR_URL, Print (Skipped ''Alpha''),
      Print (Parsing ''Gamma 3''), Get ''https://habr.com/c'',
      Print (Failed ''https://habr.com/c'' Timeout), Sleep 1,
      Print (Parsing ''Delta''), Get ''https://habr.com/d'',
      Print (Failed ''https://habr.com/d'' Timeout), Sleep 1,
      Print NoNew] \<and>
   session_get example_env (requests example_world) HABR_URL = Inr ''listing'' \<and>
   parse_main_page example_env ''listing'' =
     Inr [\<lparr>title = ''Alpha'', url = ''https://habr.com/a''\<rparr>,
          \<lparr>title = ''Gamma 3'', url = ''https://habr.com/c''\<rparr>,
          \<lparr>title = ''Delta'', url = ''https://habr.com/d''\<rparr>] \<and>
   take 8 (trace (fst (main example_env 3 example_world))) =
     [Get HABR_URL, Print (Skipped ''Alpha''),
      Print (Parsing ''Gamma 3''), Get ''https://habr.com/c'', Sleep 1,
      Print (Parsing ''Delta''), Get ''https://habr.com/d'', Sleep 1]"
proof -
  let ?stubs = "[\<lparr>title = ''Alpha'', url = ''https://habr.com/a''\<rparr>,
          \<lparr>title = ''Gamma 3'', url = ''https://habr.com/c''\<rparr>,
          \<lparr>title = ''Delta'', url = ''https://habr.com/d''\<rparr>]"
  let ?known = "set (map url [record_a, record_b])"
  have h1: "load_existing_data (store example_world) = Inr [record_a, record_b]"
    by (simp add: example_world_def load_existing_data_def)
  have h2: "session_get failing_env (requests example_world) HABR_URL = Inr ''listing''"
    by (simp add: failing_env_def)
  have h3: "parse_main_page failing_env ''listing'' = Inr ?stubs"
    by code_simp
  have g2: "session_get example_env (requests example_world) HABR_URL = Inr ''listing''"
    by (simp add: example_env_def)
  have g3: "parse_main_page example_env ''listing'' = Inr ?stubs"
    by code_simp
  have t: "trace example_world = []"
    by (simp add: example_world_def)
  have fl: "loop_events failing_env ?known (Suc (requests example_world)) (slice_to ?stubs 3) =
     [Print (Skipped ''Alpha''),
      Print (Parsing ''Gamma 3''), Get ''https://habr.com/c'',
      Print (Failed ''https://habr.com/c'' Timeout), Sleep 1,
      Print (Parsing ''Delta''), Get ''https://habr.com/d'',
      Print (Failed ''https://habr.com/d'' Timeout), Sleep 1]"
    by code_simp
  have fn: "new_records failing_env (Suc (requests example_world))
       (filter (\<lambda>a. url a \<notin> ?known) (slice_to ?stubs 3)) = []"
    by code_simp
  have gl: "loop_events example_env ?known (Suc (requests example_world)) (slice_to ?stubs 3) =
     [Print (Skipped ''Alpha''),
      Print (Parsing ''Gamma 3''), Get ''https://habr.com/c'', Sleep 1,
      Print (Parsing ''Delta''), Get ''https://habr.com/d'', Sleep 1]"
    by code_simp
  have a: "trace (fst (main failing_env 3 example_world)) =
     [Get HABR_URL, Print (Skipped ''Alpha''),
      Print (Parsing ''Gamma 3''), Get ''https://habr.com/c'',
      Print (Failed ''https://habr.com/c'' Timeout), Sleep 1,
      Print (Parsing ''Delta''), Get ''https://habr.com/d'',
      Print (Failed ''https://habr.com/d'' Timeout), Sleep 1,
      Print NoNew]"
    using main_delay_after_fetched_only [OF h1 h2 h3, of 3] unfolding t fl fn by simp
  have b: "take 8 (trace (fst (main example_env 3 example_world))) =
     [Get HABR_URL, Print (Skipped ''Alpha''),
      Print (Parsing ''Gamma 3''), Get ''https://habr.com/c'', Sleep 1,
      Print (Parsing ''Delta''), Get ''https://habr.com/d'', Sleep 1]"
    using main_delay_after_fetched_only [OF h1 g2 g3, of 3] unfolding t gl by simp
  show ?thesis
    using h1 h2 h3 g2 g3 a b by simp
qed

lemma slice_to_nonneg: "0 \<le> n \<Longrightarrow> slice_to xs n = take (nat n) xs"
  by (simp add: slice_to_def)

text \<open>
  Claim C9, amended. For a limit \<open>N\<close> that is not negative, a run that reaches the loop
  takes up exactly the first \<open>N\<close> stubs of the listing (all of them when there are fewer),
  in listing order. The script passes 5 when it has no argument, and the value of its first
  argument otherwise.
\<close>

theorem main_considers_first_n:
  assumes "load_existing_data (store w) = Inr existing_data"
    and "session_get E (requests w) HABR_URL = Inr main_html"
    and "parse_main_page E main_html = Inr stubs"
    and "0 \<le> limit"
  shows "considered (trace (fst (main E limit w))) =
           considered (trace w) @ map title (take (nat limit) stubs) \<and>
         script E [prog] w = main E 5 w \<and>
         (int_of E arg = Inr n \<longrightarrow> script E (prog # arg # rest) w = main E n w)"
proof -
  let ?known = "set (map url existing_data)"
  let ?w1 = "emit (Get HABR_URL) (w\<lparr>requests := Suc (requests w)\<rparr>)"
  let ?run = "main_loop E ?known (slice_to stubs limit) (?w1, [])"
  have run: "?run = (fst ?run, snd ?run)" by simp
  have "considered (trace (fst (main E limit w))) = considered (trace (fst ?run))"
    using main_unfold [OF assms(1-3) run]
    by (simp add: emit_def save_data_def considered_append)
  then have "considered (trace (fst (main E limit w))) =
      considered (trace w) @ map title (slice_to stubs limit)"
    using main_loop_considered [of E ?known "slice_to stubs limit" ?w1 "[]"]
    by (simp add: emit_def considered_append)
  then show ?thesis
    using assms(4) by (simp add: slice_to_nonneg script_def)
qed

text \<open>
  Claim C9 as stated fails for a negative limit: with \<open>N = -1\<close> and a listing of three
  stubs the run takes up the first two.
\<close>

theorem main_negative_limit:
  "parse_main_page example_env ''listing'' =
     Inr [\<lparr>title = ''Alpha'', url = ''https://habr.com/a''\<rparr>,
          \<lparr>title = ''Gamma 3'', url = ''https://habr.com/c''\<rparr>,
          \<lparr>title = ''Delta'', url = ''https://habr.com/d''\<rparr>] \<and>
   considered (trace (fst (main example_env (- 1) example_world))) = [''Alpha'', ''Gamma 3''] \<and>
   take (nat (- 1)) [''Alpha'', ''Gamma 3'', ''Delta''] = ([] :: string list)"
  by code_simp

text \<open>
  With a limit of 2 the run takes up Alpha and Gamma.
\<close>

theorem main_considers_first_n_witness:
  "load_existing_data (store example_world) = Inr [record_a, record_b] \<and>
   session_get example_env (requests example_world) HABR_URL = Inr ''listing'' \<and>
   parse_main_page example_env ''listing'' =
     Inr [\<lparr>title = ''Alpha'', url = ''https://habr.com/a''\<rparr>,
          \<lparr>title = ''Gamma 3'', url = ''https://habr.com/c''\<rparr>,
          \<lparr>title = ''Delta'', url = ''https://habr.com/d''\<rparr>] \<and>
   considered (trace (fst (main example_env 2 example_world))) = [''Alpha'', ''Gamma 3''] \<and>
   script example_env [''main.py''] example_world = main example_env 5 example_world \<and>
   int_of example_env ''3'' = Inr 3 \<and>
   script example_env [''main.py'', ''3''] example_world = main example_env 3 example_world"
proof -
  let ?stubs = "[\<lparr>title = ''Alpha'', url = ''https://habr.com/a''\<rparr>,
          \<lparr>title = ''Gamma 3'', url = ''https://habr.com/c''\<rparr>,
          \<lparr>title = ''Delta'', url = ''https://habr.com/d''\<rparr>]"
  have h1: "load_existing_data (store example_world) = Inr [record_a, record_b]"
    by (simp add: example_world_def load_existing_data_def)
  have h2: "session_get example_env (requests example_world) HABR_URL = Inr ''listing''"
    by (simp add: example_env_def)
  have h3: "parse_main_page example_env ''listing'' = Inr ?stubs"
    by code_simp
  have h4: "int_of example_env ''3'' = Inr 3"
    by (simp add: example_env_def)
  have t: "considered (trace example_world) = []"
    by (simp add: example_world_def)
  have h5: "(0::int) \<le> 2"
    by simp
  show ?thesis
    using main_considers_first_n [OF h1 h2 h3 h5, of "''main.py''" "''3''" 3 "[]"] h1 h2 h3 h4
    unfolding t by simp
qed

end
